theory Spec2Isabelle
  imports Main "HOL-Library.Sublist"
begin

section \<open>JavaScript values\<close>

text \<open>
  The program (\<^verbatim>\<open>dep-audit.js\<close>) works on documents read with \<^verbatim>\<open>JSON.parse\<close>: the
  manifest \<^verbatim>\<open>package.json\<close>, the configuration file, the registry's answer and the
  output of the audit command. A value is one of JSON's, or \<^verbatim>\<open>undefined\<close> (what reading
  a missing property gives), or a function or prototype object of the runtime.

  \<^item> \<open>Num s\<close> is a number, held as its canonical rendering \<open>s\<close> (the string that
    \<^verbatim>\<open>String(n)\<close> gives, with \<open>''0''\<close> for both zeros). Two numbers are equal exactly
    when their renderings are, and the program does no arithmetic.
  \<^item> \<open>Str s\<close> is a string; the characters are those of package names, version strings and
    licence identifiers (ASCII).
  \<^item> \<open>Obj ps\<close> is a plain object; \<open>ps\<close> lists its own properties in the order in which
    the engine enumerates them.
  \<^item> \<open>Builtin\<close> stands for a member of \<^verbatim>\<open>Object.prototype\<close> (\<^verbatim>\<open>constructor\<close>,
    \<^verbatim>\<open>toString\<close>, ...), which every plain object inherits. The program only tests such a
    value for truth and reads \<^verbatim>\<open>severity\<close> or \<^verbatim>\<open>license\<close> from it.
\<close>

datatype jsval =
    Undefined
  | Null
  | Bool bool
  | Num string
  | Str string
  | Arr "jsval list"
  | Obj "(string \<times> jsval) list"
  | Builtin

type_synonym props = "(string \<times> jsval) list"

text \<open>
  What the program can throw: a \<^verbatim>\<open>TypeError\<close> (a property read of \<^verbatim>\<open>undefined\<close> or
  \<^verbatim>\<open>null\<close>, a call of something that is not a function, a conversion to a string that
  finds no usable \<^verbatim>\<open>toString\<close>), a rejected HTTP request, a file that cannot be read or
  parsed, and a file that cannot be written.
\<close>

datatype js_error = TypeError | RequestFailed | ReadFailed | WriteFailed

text \<open>Truthiness (\<^verbatim>\<open>ToBoolean\<close>), as used by \<^verbatim>\<open>||\<close>, \<^verbatim>\<open>? :\<close> and \<^verbatim>\<open>if\<close>.\<close>

fun truthy :: "jsval \<Rightarrow> bool" where
  "truthy Undefined = False"
| "truthy Null = False"
| "truthy (Bool b) = b"
| "truthy (Num s) = (s \<noteq> ''0'')"
| "truthy (Str s) = (s \<noteq> [])"
| "truthy (Arr xs) = True"
| "truthy (Obj ps) = True"
| "truthy Builtin = True"

fun is_primitive :: "jsval \<Rightarrow> bool" where
  "is_primitive (Arr xs) = False"
| "is_primitive (Obj ps) = False"
| "is_primitive Builtin = False"
| "is_primitive v = True"

text \<open>
  Strict equality \<^verbatim>\<open>===\<close>. Primitives are compared by type and value. Objects and arrays
  are compared by identity; every comparison of the program is between values of two
  different documents, or with a string literal, so two objects are never the same one.
  \<^verbatim>\<open>Array.prototype.includes\<close> compares with \<^verbatim>\<open>SameValueZero\<close>, which differs from
  \<^verbatim>\<open>===\<close> on \<^verbatim>\<open>NaN\<close> only, and JSON has no \<^verbatim>\<open>NaN\<close>.
\<close>

definition strict_equals :: "jsval \<Rightarrow> jsval \<Rightarrow> bool" where
  "strict_equals a b = (is_primitive a \<and> a = b)"

subsection \<open>Property keys\<close>

text \<open>
  An own property whose key is an array index (the canonical decimal form of an integer
  from 0 to \<open>2\<^sup>3\<^sup>2 - 2\<close>) is enumerated before every other key, in ascending numeric
  order; the other keys follow in the order of their creation.
\<close>

definition digit_val :: "char \<Rightarrow> int option" where
  "digit_val c = map_of (zip ''0123456789'' [0, 1, 2, 3, 4, 5, 6, 7, 8, 9]) c"

fun digits_val :: "int \<Rightarrow> string \<Rightarrow> int option" where
  "digits_val acc [] = Some acc"
| "digits_val acc (c # cs) =
     (case digit_val c of None \<Rightarrow> None | Some d \<Rightarrow> digits_val (10 * acc + d) cs)"

definition array_index :: "string \<Rightarrow> int option" where
  "array_index k =
     (if k = [] \<or> (hd k = CHR ''0'' \<and> k \<noteq> ''0'') then None
      else case digits_val 0 k of
             None \<Rightarrow> None
           | Some n \<Rightarrow> if n < 4294967295 then Some n else None)"

definition digit_char :: "nat \<Rightarrow> char" where
  "digit_char d = ''0123456789'' ! d"

fun show_nat :: "nat \<Rightarrow> string" where
  "show_nat n = (if n < 10 then [digit_char n] else show_nat (n div 10) @ [digit_char (n mod 10)])"

declare show_nat.simps [simp del]

text \<open>
  The names every plain object inherits from \<^verbatim>\<open>Object.prototype\<close>. Reading one of them
  from an object that has no own property of that name gives a function (for
  \<^verbatim>\<open>__proto__\<close>: the prototype object), not \<^verbatim>\<open>undefined\<close>.
\<close>

definition object_prototype_names :: "string list" where
  "object_prototype_names =
     [''constructor'', ''__defineGetter__'', ''__defineSetter__'', ''hasOwnProperty'',
      ''__lookupGetter__'', ''__lookupSetter__'', ''isPrototypeOf'', ''propertyIsEnumerable'',
      ''toString'', ''valueOf'', ''__proto__'', ''toLocaleString'']"

text \<open>
  A property read \<^verbatim>\<open>v[k]\<close> (and \<^verbatim>\<open>v.k\<close>). It throws on \<^verbatim>\<open>undefined\<close> and \<^verbatim>\<open>null\<close>.
  A plain object gives its own property, else what it inherits. An array gives its
  element at an index. For the other receivers, and for the other keys of an array
  (\<^verbatim>\<open>length\<close>, the methods of the prototypes, the characters of a string) the model
  gives \<open>Undefined\<close>: the program reads a computed key from such a receiver only in
  \<^verbatim>\<open>versions[version]?.license\<close>, and none of those values has a \<^verbatim>\<open>license\<close>, so the
  expression is \<^verbatim>\<open>undefined\<close> either way; the fixed keys it reads (\<^verbatim>\<open>dependencies\<close>,
  \<^verbatim>\<open>ignored\<close>, \<^verbatim>\<open>latest\<close>, ...) are names of no prototype.
\<close>

fun get_prop :: "jsval \<Rightarrow> string \<Rightarrow> js_error + jsval" where
  "get_prop Undefined k = Inl TypeError"
| "get_prop Null k = Inl TypeError"
| "get_prop (Obj ps) k =
     Inr (case map_of ps k of
            Some v \<Rightarrow> v
          | None \<Rightarrow> if k \<in> set object_prototype_names then Builtin else Undefined)"
| "get_prop (Arr xs) k =
     Inr (case array_index k of
            Some i \<Rightarrow> if i < int (length xs) then xs ! nat i else Undefined
          | None \<Rightarrow> Undefined)"
| "get_prop v k = Inr Undefined"

text \<open>Optional chaining \<^verbatim>\<open>v?.k\<close>: \<^verbatim>\<open>undefined\<close> when \<open>v\<close> is \<^verbatim>\<open>undefined\<close> or \<^verbatim>\<open>null\<close>.\<close>

definition optional_prop :: "jsval \<Rightarrow> string \<Rightarrow> js_error + jsval" where
  "optional_prop v k = (if v = Undefined \<or> v = Null then Inr Undefined else get_prop v k)"

subsection \<open>Conversion to a string\<close>

text \<open>
  \<^verbatim>\<open>ToString\<close>, which a computed key \<^verbatim>\<open>o[v]\<close> and \<^verbatim>\<open>String.prototype.includes\<close> apply
  to their argument. An array is joined with commas, \<^verbatim>\<open>undefined\<close> and \<^verbatim>\<open>null\<close>
  elements giving the empty string. A plain object answers \<^verbatim>\<open>[object Object]\<close> through
  the inherited \<^verbatim>\<open>toString\<close>; when the document gives it an own property of that name
  (which is no function), no conversion is left and a \<^verbatim>\<open>TypeError\<close> is thrown.
\<close>

fun join_strings :: "(js_error + string) list \<Rightarrow> js_error + string" where
  "join_strings [] = Inr []"
| "join_strings [r] = r"
| "join_strings (r # rs) =
     (case r of
        Inl e \<Rightarrow> Inl e
      | Inr s \<Rightarrow> (case join_strings rs of Inl e \<Rightarrow> Inl e | Inr t \<Rightarrow> Inr (s @ '','' @ t)))"

fun to_string :: "jsval \<Rightarrow> js_error + string" where
  "to_string Undefined = Inr ''undefined''"
| "to_string Null = Inr ''null''"
| "to_string (Bool b) = Inr (if b then ''true'' else ''false'')"
| "to_string (Num s) = Inr s"
| "to_string (Str s) = Inr s"
| "to_string (Arr xs) =
     join_strings (map (\<lambda>x. if x = Undefined \<or> x = Null then Inr [] else to_string x) xs)"
| "to_string (Obj ps) =
     (if map_of ps ''toString'' = None then Inr ''[object Object]'' else Inl TypeError)"
| "to_string Builtin = Inr ''function () { [native code] }''"

subsection \<open>The method \<^verbatim>\<open>includes\<close>\<close>

fun string_includes :: "string \<Rightarrow> string \<Rightarrow> bool" where
  "string_includes [] needle = (needle = [])"
| "string_includes (c # cs) needle = (prefix needle (c # cs) \<or> string_includes cs needle)"

text \<open>
  \<^verbatim>\<open>r.includes(x)\<close>: membership for an array, substring search for a string, and a
  \<^verbatim>\<open>TypeError\<close> for every other receiver (\<^verbatim>\<open>undefined\<close> and \<^verbatim>\<open>null\<close> have no properties;
  numbers, booleans and objects of a JSON document have no callable \<^verbatim>\<open>includes\<close>).
\<close>

fun includes_call :: "jsval \<Rightarrow> jsval \<Rightarrow> js_error + bool" where
  "includes_call (Arr xs) x = Inr (list_ex (\<lambda>y. strict_equals y x) xs)"
| "includes_call (Str s) x =
     (case to_string x of Inl e \<Rightarrow> Inl e | Inr t \<Rightarrow> Inr (string_includes s t))"
| "includes_call r x = Inl TypeError"

subsection \<open>Object spread and \<^verbatim>\<open>Object.entries\<close>\<close>

text \<open>
  The own enumerable properties that a spread \<^verbatim>\<open>{...v}\<close> copies: those of an object, the
  indexed elements of an array, the indexed characters of a string, and nothing for
  \<^verbatim>\<open>undefined\<close>, \<^verbatim>\<open>null\<close>, numbers and booleans.
\<close>

fun own_entries :: "jsval \<Rightarrow> props" where
  "own_entries (Obj ps) = ps"
| "own_entries (Arr xs) = zip (map show_nat [0..<length xs]) xs"
| "own_entries (Str s) = zip (map show_nat [0..<length s]) (map (\<lambda>c. Str [c]) s)"
| "own_entries v = []"

text \<open>
  Creating or overwriting an own property. An existing key keeps its place and takes the
  new value. A new key that is an array index goes to its numeric place among the index
  keys at the front; any other new key goes to the end.
\<close>

fun insert_index :: "int \<Rightarrow> string \<Rightarrow> jsval \<Rightarrow> props \<Rightarrow> props" where
  "insert_index i k v [] = [(k, v)]"
| "insert_index i k v ((k', v') # ps) =
     (case array_index k' of
        Some j \<Rightarrow> if j < i then (k', v') # insert_index i k v ps else (k, v) # (k', v') # ps
      | None \<Rightarrow> (k, v) # (k', v') # ps)"

definition define_prop :: "props \<Rightarrow> string \<Rightarrow> jsval \<Rightarrow> props" where
  "define_prop ps k v =
     (if map_of ps k \<noteq> None then map (\<lambda>(k', v'). if k' = k then (k', v) else (k', v')) ps
      else case array_index k of
             Some i \<Rightarrow> insert_index i k v ps
           | None \<Rightarrow> ps @ [(k, v)])"

text \<open>\<^verbatim>\<open>{...target, ...source}\<close>: the properties of the source are copied one by one.\<close>

definition spread :: "props \<Rightarrow> jsval \<Rightarrow> props" where
  "spread target source = fold (\<lambda>(k, v) t. define_prop t k v) (own_entries source) target"

section \<open>The program\<close>

subsection \<open>\<^verbatim>\<open>loadConfig\<close>\<close>

text \<open>
  \<^verbatim>\<open>fs.readJson(CONFIG_FILE)\<close> either gives the parsed document or rejects (the file is
  absent, unreadable, or not JSON); that outcome is the argument. The \<^verbatim>\<open>catch\<close> turns
  every rejection into the default configuration.
\<close>

definition default_config :: jsval where
  "default_config =
     Obj [(''ignored'', Arr []),
          (''allowedLicenses'',
             Arr [Str ''MIT'', Str ''Apache-2.0'', Str ''BSD-2-Clause'', Str ''BSD-3-Clause''])]"

definition loadConfig :: "js_error + jsval \<Rightarrow> js_error + jsval" where
  "loadConfig config_file = (case config_file of Inr v \<Rightarrow> Inr v | Inl e \<Rightarrow> Inr default_config)"

subsection \<open>\<^verbatim>\<open>fetchPackageInfo\<close>\<close>

text \<open>
  The registry is a partial map from the requested URL to the body of a successful
  answer (\<^verbatim>\<open>response.data\<close>); \<open>None\<close> is a request that axios rejects (no network, or a
  status outside 2xx such as 404). \<open>fetch_try\<close> is the body of the \<^verbatim>\<open>try\<close> block, with
  every exception as a value; \<open>fetchPackageInfo\<close> adds the \<^verbatim>\<open>catch\<close>. The result is the
  pair \<^verbatim>\<open>{ latest, license }\<close>.
\<close>

type_synonym registry = "string \<Rightarrow> jsval option"

definition registry_url :: "string \<Rightarrow> string" where
  "registry_url pname = ''https://registry.npmjs.org/'' @ pname"

definition fetch_try :: "registry \<Rightarrow> string \<Rightarrow> jsval \<Rightarrow> js_error + (jsval \<times> jsval)" where
  "fetch_try reg pname pversion =
     (case reg (registry_url pname) of
        None \<Rightarrow> Inl RequestFailed
      | Some data \<Rightarrow>
     (case get_prop data ''dist-tags'' of Inl e \<Rightarrow> Inl e | Inr tags \<Rightarrow>
     (case get_prop tags ''latest'' of Inl e \<Rightarrow> Inl e | Inr latest_tag \<Rightarrow>
     (case get_prop data ''versions'' of Inl e \<Rightarrow> Inl e | Inr versions \<Rightarrow>
     (case to_string pversion of Inl e \<Rightarrow> Inl e | Inr key \<Rightarrow>
     (case get_prop versions key of Inl e \<Rightarrow> Inl e | Inr entry \<Rightarrow>
     (case optional_prop entry ''license'' of Inl e \<Rightarrow> Inl e | Inr lic \<Rightarrow>
        Inr (latest_tag, if truthy lic then lic else Str ''Unknown''))))))))"

definition fetchPackageInfo :: "registry \<Rightarrow> string \<Rightarrow> jsval \<Rightarrow> js_error + (jsval \<times> jsval)" where
  "fetchPackageInfo reg pname pversion =
     (case fetch_try reg pname pversion of
        Inr info \<Rightarrow> Inr info
      | Inl e \<Rightarrow> Inr (Str ''Unknown'', Str ''Unknown''))"

subsection \<open>\<^verbatim>\<open>scanDependencies\<close>\<close>

text \<open>The object pushed onto \<^verbatim>\<open>results\<close>, with the field names of the source.\<close>

record verdict =
  name :: string
  version :: jsval
  latest :: jsval
  isOutdated :: bool
  hasVulnerability :: jsval
  license :: jsval
  isLicenseAllowed :: bool

text \<open>
  The loop body after the \<^verbatim>\<open>continue\<close> test (lines 63 to 76): the verdict of one
  declaration. \<open>vulnerabilities\<close> holds the own properties of the object that
  \<^verbatim>\<open>runNpmAudit\<close> returns: the \<^verbatim>\<open>vulnerabilities\<close> object of the audit report, or
  \<^verbatim>\<open>{}\<close>.
\<close>

definition scan_body :: "registry \<Rightarrow> jsval \<Rightarrow> props \<Rightarrow> string \<Rightarrow> jsval \<Rightarrow> js_error + verdict" where
  "scan_body reg config vulnerabilities pname pversion =
     (case fetchPackageInfo reg pname pversion of Inl e \<Rightarrow> Inl e | Inr (latest', license') \<Rightarrow>
     (let outdated = (\<not> strict_equals latest' pversion \<and> \<not> strict_equals latest' (Str ''Unknown'')) in
     (case get_prop (Obj vulnerabilities) pname of Inl e \<Rightarrow> Inl e | Inr vuln \<Rightarrow>
     (case (if truthy vuln then get_prop vuln ''severity'' else Inr Null) of Inl e \<Rightarrow> Inl e | Inr severity \<Rightarrow>
     (case get_prop config ''allowedLicenses'' of Inl e \<Rightarrow> Inl e | Inr allowed \<Rightarrow>
     (case includes_call allowed license' of Inl e \<Rightarrow> Inl e | Inr listed \<Rightarrow>
        Inr \<lparr>name = pname, version = pversion, latest = latest', isOutdated = outdated,
             hasVulnerability = severity, license = license',
             isLicenseAllowed = (listed \<or> strict_equals license' (Str ''Unknown''))\<rparr>))))))"

text \<open>
  The \<^verbatim>\<open>for\<close> loop over \<^verbatim>\<open>Object.entries(dependencies)\<close>, with \<^verbatim>\<open>results\<close> as accumulator.
  An exception leaves the loop and the function.
\<close>

fun scan_loop :: "registry \<Rightarrow> jsval \<Rightarrow> props \<Rightarrow> props \<Rightarrow> verdict list \<Rightarrow> js_error + verdict list" where
  "scan_loop reg config vulnerabilities [] results = Inr results"
| "scan_loop reg config vulnerabilities ((pname, pversion) # rest) results =
     (case get_prop config ''ignored'' of Inl e \<Rightarrow> Inl e | Inr ignored \<Rightarrow>
     (case includes_call ignored (Str pname) of
        Inl e \<Rightarrow> Inl e
      | Inr True \<Rightarrow> scan_loop reg config vulnerabilities rest results
      | Inr False \<Rightarrow>
          (case scan_body reg config vulnerabilities pname pversion of
             Inl e \<Rightarrow> Inl e
           | Inr v \<Rightarrow> scan_loop reg config vulnerabilities rest (results @ [v]))))"

text \<open>
  \<^verbatim>\<open>const dependencies = { ...pkg.dependencies, ...pkg.devDependencies }\<close>; the list is
  also what \<^verbatim>\<open>Object.entries(dependencies)\<close> enumerates.
\<close>

definition merged_dependencies :: "jsval \<Rightarrow> js_error + props" where
  "merged_dependencies pkg =
     (case get_prop pkg ''dependencies'' of Inl e \<Rightarrow> Inl e | Inr deps \<Rightarrow>
     (case get_prop pkg ''devDependencies'' of Inl e \<Rightarrow> Inl e | Inr dev \<Rightarrow>
        Inr (spread (spread [] deps) dev)))"

text \<open>
  \<^verbatim>\<open>await fs.readJson(...'package.json').catch(() => ({}))\<close>: the parsed manifest, or
  \<^verbatim>\<open>{}\<close> when it cannot be read.
\<close>

definition read_manifest :: "js_error + jsval \<Rightarrow> jsval" where
  "read_manifest package_file = (case package_file of Inr v \<Rightarrow> v | Inl e \<Rightarrow> Obj [])"

text \<open>
  Lines 54 to 77 of \<^verbatim>\<open>scanDependencies\<close>: the array \<^verbatim>\<open>results\<close> when the loop ends, or
  the exception that ends the function before. \<open>package_file\<close> and \<open>config_file\<close> are
  the outcomes of reading the two files. The rest of the function (lines 79 to 88)
  writes and prints this array and does not change it; it follows below as
  \<open>scanDependencies\<close>.
\<close>

definition scan_results ::
  "registry \<Rightarrow> js_error + jsval \<Rightarrow> js_error + jsval \<Rightarrow> props \<Rightarrow> js_error + verdict list" where
  "scan_results reg package_file config_file vulnerabilities =
     (case merged_dependencies (read_manifest package_file) of Inl e \<Rightarrow> Inl e | Inr dependencies \<Rightarrow>
     (case loadConfig config_file of Inl e \<Rightarrow> Inl e | Inr config \<Rightarrow>
        scan_loop reg config vulnerabilities dependencies []))"

subsection \<open>The report file\<close>

text \<open>
  \<^verbatim>\<open>fs.writeJson(REPORT_FILE, results)\<close> serialises the array with \<^verbatim>\<open>JSON.stringify\<close>,
  which leaves out every member of an object whose value is \<^verbatim>\<open>undefined\<close> or a function.
  \<open>verdict_object\<close> is the object literal of lines 68 to 76, \<open>report_file\<close> the
  document that reading the report back gives.
\<close>

definition verdict_object :: "verdict \<Rightarrow> props" where
  "verdict_object v =
     [(''name'', Str (name v)), (''version'', version v), (''latest'', latest v),
      (''isOutdated'', Bool (isOutdated v)), (''hasVulnerability'', hasVulnerability v),
      (''license'', license v), (''isLicenseAllowed'', Bool (isLicenseAllowed v))]"

definition json_members :: "props \<Rightarrow> props" where
  "json_members ps = filter (\<lambda>(k, v). v \<noteq> Undefined \<and> v \<noteq> Builtin) ps"

definition report_file :: "verdict list \<Rightarrow> jsval" where
  "report_file results = Arr (map (\<lambda>v. Obj (json_members (verdict_object v))) results)"

subsection \<open>The summary and the whole of \<^verbatim>\<open>scanDependencies\<close>\<close>

text \<open>
  What \<^verbatim>\<open>console.log\<close> has printed, line by line (without the colours of chalk), and
  the exception that stopped the printing, if any. A template literal converts each
  \<^verbatim>\<open>${...}\<close> with \<^verbatim>\<open>ToString\<close>, which throws for an object that has an own member
  \<^verbatim>\<open>toString\<close>.
\<close>

type_synonym printed = "string list \<times> js_error option"

definition template :: "string \<Rightarrow> jsval \<Rightarrow> string \<Rightarrow> js_error + string" where
  "template front v back =
     (case to_string v of Inl e \<Rightarrow> Inl e | Inr s \<Rightarrow> Inr (front @ s @ back))"

definition console_log :: "js_error + string \<Rightarrow> printed" where
  "console_log text = (case text of Inl e \<Rightarrow> ([], Some e) | Inr s \<Rightarrow> ([s], None))"

definition and_then :: "printed \<Rightarrow> printed \<Rightarrow> printed" where
  "and_then first second =
     (case first of
        (out, Some e) \<Rightarrow> (out, Some e)
      | (out, None) \<Rightarrow> (out @ fst second, snd second))"

text \<open>The callback of \<^verbatim>\<open>results.forEach\<close> (lines 84 to 87).\<close>

definition print_dep :: "verdict \<Rightarrow> printed" where
  "print_dep dep =
     and_then (console_log (template (''- '' @ name dep @ ''@'') (version dep) []))
    (and_then (if isOutdated dep
               then console_log (template ''  Outdated: Latest is '' (latest dep) [])
               else ([], None))
    (and_then (if truthy (hasVulnerability dep)
               then console_log (template ''  Vulnerability: '' (hasVulnerability dep) [])
               else ([], None))
              (if \<not> isLicenseAllowed dep
               then console_log (template ''  License: '' (license dep) '' (Not allowed)'')
               else ([], None))))"

fun print_summary :: "verdict list \<Rightarrow> printed" where
  "print_summary [] = ([], None)"
| "print_summary (dep # rest) = and_then (print_dep dep) (print_summary rest)"

text \<open>
  What a run of the command leaves behind: the document it wrote to the report file
  (\<open>None\<close> when it wrote none), the lines it printed, and the exception it ended
  with (\<open>None\<close> when it returned).
\<close>

record outcome =
  written :: "jsval option"
  printed_lines :: "string list"
  thrown :: "js_error option"

text \<open>
  The whole function. \<open>write_error\<close> is the outcome of \<^verbatim>\<open>fs.writeJson\<close> (\<open>None\<close> when
  the file was written) and \<open>report_path\<close> the value of \<^verbatim>\<open>REPORT_FILE\<close>. The report is
  written before anything is printed, so an exception of the summary leaves the
  report in place.
\<close>

definition scanDependencies ::
  "registry \<Rightarrow> js_error + jsval \<Rightarrow> js_error + jsval \<Rightarrow> props \<Rightarrow> js_error option \<Rightarrow> string
     \<Rightarrow> outcome" where
  "scanDependencies reg package_file config_file vulnerabilities write_error report_path =
     (case scan_results reg package_file config_file vulnerabilities of
        Inl e \<Rightarrow> \<lparr>written = None, printed_lines = [], thrown = Some e\<rparr>
      | Inr results \<Rightarrow>
          (case write_error of
             Some e \<Rightarrow> \<lparr>written = None, printed_lines = [], thrown = Some e\<rparr>
           | None \<Rightarrow>
               (let summary = print_summary results in
                \<lparr>written = Some (report_file results),
                 printed_lines = [''Audit completed! Report saved to '' @ report_path,
                                  ''Dependency Audit Summary:''] @ fst summary,
                 thrown = snd summary\<rparr>)))"

subsection \<open>\<^verbatim>\<open>updateConfig\<close>\<close>

text \<open>
  The options object of the \<^verbatim>\<open>config\<close> command: each option is a string or absent.
\<close>

record options =
  ignore :: "string option"
  addLicense :: "string option"

text \<open>
  \<^verbatim>\<open>config[field].push(x)\<close>. Only an array has \<^verbatim>\<open>push\<close>; the array is changed in place,
  so the configuration that is saved afterwards holds the longer array.
\<close>

definition push_call :: "jsval \<Rightarrow> string \<Rightarrow> string \<Rightarrow> js_error + jsval" where
  "push_call config field x =
     (case get_prop config field of
        Inl e \<Rightarrow> Inl e
      | Inr (Arr xs) \<Rightarrow>
          Inr (case config of Obj ps \<Rightarrow> Obj (define_prop ps field (Arr (xs @ [Str x]))) | c \<Rightarrow> c)
      | Inr r \<Rightarrow> Inl TypeError)"

text \<open>\<^verbatim>\<open>if (opt) { config[field].push(opt) }\<close>: an absent or empty option does nothing.\<close>

definition push_option :: "jsval \<Rightarrow> string \<Rightarrow> string option \<Rightarrow> js_error + jsval" where
  "push_option config field opt =
     (case opt of
        None \<Rightarrow> Inr config
      | Some x \<Rightarrow> if x = [] then Inr config else push_call config field x)"

text \<open>\<open>updateConfig\<close> returns the configuration handed to \<^verbatim>\<open>saveConfig\<close>.\<close>

definition updateConfig :: "js_error + jsval \<Rightarrow> options \<Rightarrow> js_error + jsval" where
  "updateConfig config_file opts =
     (case loadConfig config_file of Inl e \<Rightarrow> Inl e | Inr config \<Rightarrow>
     (case push_option config ''ignored'' (ignore opts) of Inl e \<Rightarrow> Inl e | Inr config1 \<Rightarrow>
        push_option config1 ''allowedLicenses'' (addLicense opts)))"

section \<open>Notions used in the statements\<close>

text \<open>
  A document as \<^verbatim>\<open>JSON.parse\<close> produces it: no \<^verbatim>\<open>undefined\<close> and no function inside.
\<close>

fun is_json :: "jsval \<Rightarrow> bool" where
  "is_json Undefined = False"
| "is_json Builtin = False"
| "is_json (Arr xs) = list_all is_json xs"
| "is_json (Obj ps) = list_all (\<lambda>p. is_json (snd p)) ps"
| "is_json v = True"





subsection \<open>In the words of the specification\<close>



definition declaration_of :: "verdict \<Rightarrow> string \<times> jsval" where
  "declaration_of v = (name v, version v)"

text \<open>The field names of a DependencyVerdict in section 3 of the specification.\<close>

definition spec_verdict_fields :: "string list" where
  "spec_verdict_fields =
     [''name'', ''declaredVersion'', ''latestVersion'', ''isOutdated'', ''vulnerabilitySeverity'',
      ''license'', ''isLicenseAllowed'']"

text \<open>
  Well-formed declarations (sections 3 and 4.4): a group of the manifest is absent or
  an object, and every entry pairs a name with a version string.
\<close>

fun spec_declaration_group :: "jsval \<Rightarrow> bool" where
  "spec_declaration_group Undefined = True"
| "spec_declaration_group (Obj ps) = list_all (\<lambda>p. case snd p of Str s \<Rightarrow> True | _ \<Rightarrow> False) ps"
| "spec_declaration_group v = False"

definition spec_well_formed :: "jsval \<Rightarrow> bool" where
  "spec_well_formed pkg =
     (case get_prop pkg ''dependencies'' of Inl e \<Rightarrow> False | Inr deps \<Rightarrow>
     (case get_prop pkg ''devDependencies'' of Inl e \<Rightarrow> False | Inr dev \<Rightarrow>
        spec_declaration_group deps \<and> spec_declaration_group dev))"

section \<open>Sample documents\<close>

text \<open>
  A registry that knows \<^verbatim>\<open>lodash\<close> and \<^verbatim>\<open>badlib\<close> and rejects every other request, a
  manifest with three declarations, an audit result and a configuration.
\<close>

definition lodash_document :: jsval where
  "lodash_document =
     Obj [(''dist-tags'', Obj [(''latest'', Str ''4.17.21'')]),
          (''versions'', Obj [(''4.17.0'', Obj [(''license'', Str ''MIT'')]),
                              (''4.17.21'', Obj [(''license'', Str ''MIT'')])])]"

definition badlib_document :: jsval where
  "badlib_document =
     Obj [(''dist-tags'', Obj [(''latest'', Str ''2.0.0'')]),
          (''versions'', Obj [(''2.0.0'', Obj [(''license'', Str ''GPL-3.0'')])])]"

definition sample_registry :: registry where
  "sample_registry =
     map_of [(''https://registry.npmjs.org/lodash'', lodash_document),
             (''https://registry.npmjs.org/badlib'', badlib_document)]"

definition sample_manifest :: jsval where
  "sample_manifest =
     Obj [(''dependencies'', Obj [(''lodash'', Str ''4.17.0''), (''left-pad'', Str ''1.0.0'')]),
          (''devDependencies'', Obj [(''badlib'', Str ''2.0.0''), (''left-pad'', Str ''1.3.0'')])]"

definition sample_vulnerabilities :: props where
  "sample_vulnerabilities = [(''badlib'', Obj [(''severity'', Str ''high'')])]"

definition sample_config :: jsval where
  "sample_config = Obj [(''ignored'', Arr [Str ''left-pad'']), (''allowedLicenses'', Arr [Str ''MIT''])]"


text \<open>A manifest whose declaration gives a number where a version string belongs.\<close>

definition malformed_manifest :: jsval where
  "malformed_manifest = Obj [(''dependencies'', Obj [(''lodash'', Num ''4'')])]"

text \<open>A manifest that declares the package \<^verbatim>\<open>constructor\<close>.\<close>

definition constructor_manifest :: jsval where
  "constructor_manifest = Obj [(''dependencies'', Obj [(''constructor'', Str ''1.0.0'')])]"

text \<open>A manifest whose declaration gives an object with a member \<^verbatim>\<open>toString\<close> as version.\<close>

definition tostring_manifest :: jsval where
  "tostring_manifest =
     Obj [(''dependencies'', Obj [(''lodash'', Obj [(''toString'', Num ''1'')])])]"

text \<open>The verdicts of the three declarations.\<close>

definition lodash_verdict :: verdict where
  "lodash_verdict =
     \<lparr>name = ''lodash'', version = Str ''4.17.0'', latest = Str ''4.17.21'', isOutdated = True,
      hasVulnerability = Null, license = Str ''MIT'', isLicenseAllowed = True\<rparr>"

definition leftpad_verdict :: verdict where
  "leftpad_verdict =
     \<lparr>name = ''left-pad'', version = Str ''1.3.0'', latest = Str ''Unknown'', isOutdated = False,
      hasVulnerability = Null, license = Str ''Unknown'', isLicenseAllowed = True\<rparr>"

definition badlib_verdict :: verdict where
  "badlib_verdict =
     \<lparr>name = ''badlib'', version = Str ''2.0.0'', latest = Str ''2.0.0'', isOutdated = False,
      hasVulnerability = Str ''high'', license = Str ''GPL-3.0'', isLicenseAllowed = False\<rparr>"



section \<open>Evaluation of the samples\<close>

lemma sample_scan:
  "scan_results sample_registry (Inr sample_manifest) (Inr sample_config) sample_vulnerabilities
     = Inr [lodash_verdict, badlib_verdict]"
  by code_simp

lemma sample_scan_default:
  "scan_results sample_registry (Inr sample_manifest) (Inl ReadFailed) sample_vulnerabilities
     = Inr [lodash_verdict, leftpad_verdict, badlib_verdict]"
  by code_simp

section \<open>Properties of the operations\<close>

lemma fetchPackageInfo_returns: "\<exists>info. fetchPackageInfo reg pname pversion = Inr info"
  by (simp add: fetchPackageInfo_def split: sum.split)

lemma includes_call_Arr:
  "includes_call (Arr xs) x = Inr (is_primitive x \<and> x \<in> set xs)"
  by (auto simp: list_ex_iff strict_equals_def)

lemma includes_call_Arr_Str: "includes_call (Arr xs) (Str n) = Inr (Str n \<in> set xs)"
  by (simp add: includes_call_Arr del: includes_call.simps)

lemma strict_equals_Str: "strict_equals x (Str s) = (x = Str s)"
  by (auto simp: strict_equals_def)

lemma scan_body_fields:
  assumes "scan_body reg config vulnerabilities pname pversion = Inr v"
  shows "name v = pname" and "version v = pversion"
    and "fetchPackageInfo reg pname pversion = Inr (latest v, license v)"
    and "isOutdated v =
           (\<not> strict_equals (latest v) pversion \<and> \<not> strict_equals (latest v) (Str ''Unknown''))"
  using assms by (auto simp: scan_body_def Let_def split: sum.splits prod.splits)

lemma scan_body_license:
  assumes "scan_body reg config vulnerabilities pname pversion = Inr v"
  shows "\<exists>allowed listed. get_prop config ''allowedLicenses'' = Inr allowed
           \<and> includes_call allowed (license v) = Inr listed
           \<and> isLicenseAllowed v = (listed \<or> strict_equals (license v) (Str ''Unknown''))"
  using assms by (auto simp: scan_body_def Let_def split: sum.splits prod.splits)

lemma scan_body_severity:
  assumes "scan_body reg config vulnerabilities pname pversion = Inr v"
  shows "\<exists>vuln. get_prop (Obj vulnerabilities) pname = Inr vuln
           \<and> (if truthy vuln then get_prop vuln ''severity'' else Inr Null) = Inr (hasVulnerability v)"
  using assms
  by (auto simp: scan_body_def Let_def simp del: get_prop.simps split: sum.splits prod.splits)

lemma scan_body_returns:
  assumes "get_prop config ''allowedLicenses'' = Inr (Arr allowed)"
  shows "\<exists>v. scan_body reg config vulnerabilities pname pversion = Inr v"
proof -
  obtain l lic where f: "fetchPackageInfo reg pname pversion = Inr (l, lic)"
    using fetchPackageInfo_returns[of reg pname pversion] by auto
  obtain vuln where g: "get_prop (Obj vulnerabilities) pname = Inr vuln" by simp
  have "\<exists>s. (if truthy vuln then get_prop vuln ''severity'' else Inr Null) = Inr s"
    by (cases vuln) simp_all
  then obtain s where s: "(if truthy vuln then get_prop vuln ''severity'' else Inr Null) = Inr s" ..
  show ?thesis
    unfolding scan_body_def using f g s assms
    by (simp del: get_prop.simps includes_call.simps add: includes_call_Arr Let_def)
qed

subsection \<open>The loop\<close>

lemma scan_loop_member:
  "scan_loop reg config vulnerabilities es acc = Inr rs \<Longrightarrow> v \<in> set rs \<Longrightarrow>
   v \<in> set acc \<or> (\<exists>p\<in>set es. scan_body reg config vulnerabilities (fst p) (snd p) = Inr v)"
proof (induction es arbitrary: acc)
  case Nil
  then show ?case by simp
next
  case (Cons p es)
  obtain pname pversion where p: "p = (pname, pversion)" by (cases p)
  from Cons.prems(1) obtain ignored skip where
    ig: "get_prop config ''ignored'' = Inr ignored" "includes_call ignored (Str pname) = Inr skip"
    by (auto simp: p split: sum.splits)
  show ?case
  proof (cases skip)
    case True
    with Cons.prems ig have "scan_loop reg config vulnerabilities es acc = Inr rs"
      by (simp add: p)
    from Cons.IH[OF this Cons.prems(2)] show ?thesis by auto
  next
    case False
    with Cons.prems ig obtain w where
      w: "scan_body reg config vulnerabilities pname pversion = Inr w"
         "scan_loop reg config vulnerabilities es (acc @ [w]) = Inr rs"
      by (auto simp: p split: sum.splits)
    from Cons.IH[OF w(2) Cons.prems(2)] w(1) show ?thesis by (auto simp: p)
  qed
qed

lemma scan_loop_order:
  assumes "get_prop config ''ignored'' = Inr (Arr ignored)"
  shows "scan_loop reg config vulnerabilities es acc = Inr rs \<Longrightarrow>
         map (\<lambda>v. (name v, version v)) rs
           = map (\<lambda>v. (name v, version v)) acc @ filter (\<lambda>p. Str (fst p) \<notin> set ignored) es"
proof (induction es arbitrary: acc)
  case Nil
  then show ?case by simp
next
  case (Cons p es)
  obtain pname pversion where p: "p = (pname, pversion)" by (cases p)
  show ?case
  proof (cases "Str pname \<in> set ignored")
    case True
    with Cons.prems assms have "scan_loop reg config vulnerabilities es acc = Inr rs"
      by (simp add: p includes_call_Arr_Str del: includes_call.simps)
    from Cons.IH[OF this] True show ?thesis by (simp add: p)
  next
    case False
    with Cons.prems assms obtain w where
      w: "scan_body reg config vulnerabilities pname pversion = Inr w"
         "scan_loop reg config vulnerabilities es (acc @ [w]) = Inr rs"
      by (auto simp: p includes_call_Arr_Str simp del: includes_call.simps split: sum.splits)
    from Cons.IH[OF w(2)] scan_body_fields(1,2)[OF w(1)] False show ?thesis by (simp add: p)
  qed
qed

lemma scan_loop_returns:
  assumes "get_prop config ''ignored'' = Inr (Arr ignored)"
    and "get_prop config ''allowedLicenses'' = Inr (Arr allowed)"
  shows "\<exists>rs. scan_loop reg config vulnerabilities es acc = Inr rs"
proof (induction es arbitrary: acc)
  case Nil
  show ?case by simp
next
  case (Cons p es)
  obtain pname pversion where p: "p = (pname, pversion)" by (cases p)
  obtain w where w: "scan_body reg config vulnerabilities pname pversion = Inr w"
    using scan_body_returns[OF assms(2)] by blast
  show ?case
    using Cons.IH[of acc] Cons.IH[of "acc @ [w]"] w assms(1)
    by (simp add: p includes_call_Arr_Str del: includes_call.simps split: bool.split)
qed

lemma merged_dependencies_returns:
  assumes "pkg \<noteq> Undefined" and "pkg \<noteq> Null"
  shows "\<exists>ds. merged_dependencies pkg = Inr ds"
  using assms by (cases pkg) (simp_all add: merged_dependencies_def)

lemma scan_unfold:
  assumes "scan_results reg package_file config_file vulnerabilities = Inr results"
  obtains config dependencies where
    "loadConfig config_file = Inr config"
    "merged_dependencies (read_manifest package_file) = Inr dependencies"
    "scan_loop reg config vulnerabilities dependencies [] = Inr results"
  using assms by (auto simp: scan_results_def split: sum.splits)

lemma scan_member:
  assumes "scan_results reg package_file config_file vulnerabilities = Inr results"
    and "v \<in> set results"
  shows "\<exists>config dependencies.
           loadConfig config_file = Inr config
         \<and> merged_dependencies (read_manifest package_file) = Inr dependencies
         \<and> (name v, version v) \<in> set dependencies
         \<and> scan_body reg config vulnerabilities (name v) (version v) = Inr v"
proof -
  from assms(1) obtain config dependencies where
    c: "loadConfig config_file = Inr config"
    and d: "merged_dependencies (read_manifest package_file) = Inr dependencies"
    and l: "scan_loop reg config vulnerabilities dependencies [] = Inr results"
    by (rule scan_unfold)
  from scan_loop_member[OF l assms(2)] obtain p where
    p: "p \<in> set dependencies" "scan_body reg config vulnerabilities (fst p) (snd p) = Inr v"
    by auto
  from scan_body_fields(1,2)[OF p(2)] have "p = (name v, version v)" by (cases p) simp
  with p d c show ?thesis by auto
qed

subsection \<open>The merge of the two groups\<close>











subsection \<open>Values of JSON documents\<close>

lemma is_json_defined: "is_json v \<Longrightarrow> v \<noteq> Undefined \<and> v \<noteq> Builtin"
  by (cases v) simp_all

lemma map_of_is_json:
  "list_all (\<lambda>p. is_json (snd p)) ps \<Longrightarrow> map_of ps k = Some v \<Longrightarrow> is_json v"
  by (auto simp: list_all_iff dest!: map_of_SomeD)

lemma digit_val_nonneg: "digit_val c = Some d \<Longrightarrow> 0 \<le> d"
  by (auto simp: digit_val_def split: if_splits)

lemma digits_val_nonneg: "digits_val acc cs = Some n \<Longrightarrow> 0 \<le> acc \<Longrightarrow> 0 \<le> n"
proof (induction cs arbitrary: acc)
  case Nil
  then show ?case by simp
next
  case (Cons c cs)
  from Cons.prems(1) obtain d where d: "digit_val c = Some d" "digits_val (10 * acc + d) cs = Some n"
    by (auto split: option.splits)
  from digit_val_nonneg[OF d(1)] Cons.prems(2) have "0 \<le> 10 * acc + d" by simp
  from Cons.IH[OF d(2) this] show ?case .
qed

lemma array_index_nonneg: "array_index k = Some i \<Longrightarrow> 0 \<le> i"
  by (auto simp: array_index_def split: if_splits option.splits dest: digits_val_nonneg)

lemma array_element:
  assumes "array_index k = Some i" and "i < int (length xs)"
  shows "xs ! nat i \<in> set xs"
  using array_index_nonneg[OF assms(1)] assms(2) by (intro nth_mem) simp

lemma get_prop_is_json:
  assumes "is_json d" and "get_prop d k = Inr v" and "k \<notin> set object_prototype_names"
  shows "is_json v \<or> v = Undefined"
proof (cases d)
  case (Arr xs)
  with assms show ?thesis
    by (auto simp: list_all_iff split: option.splits if_splits dest: array_element)
next
  case (Obj ps)
  with assms show ?thesis by (auto simp: map_of_is_json split: option.splits)
qed (use assms in auto)

lemma get_prop_is_json_any:
  assumes "is_json d" and "get_prop d k = Inr v"
  shows "is_json v \<or> v = Undefined \<or> v = Builtin"
proof (cases d)
  case (Arr xs)
  with assms show ?thesis
    by (auto simp: list_all_iff split: option.splits if_splits dest: array_element)
next
  case (Obj ps)
  with assms show ?thesis by (auto simp: map_of_is_json split: option.splits if_splits)
qed (use assms in auto)

lemma own_entries_is_json:
  assumes "is_json d" and "(k, v) \<in> set (own_entries d)"
  shows "is_json v"
proof (cases d)
  case (Arr xs)
  with assms show ?thesis by (auto simp: list_all_iff dest: set_zip_rightD)
next
  case (Obj ps)
  with assms show ?thesis by (auto simp: list_all_iff)
next
  case (Str s)
  with assms show ?thesis by (auto dest!: set_zip_rightD)
qed (use assms in auto)

lemma set_insert_index: "set (insert_index i k v ps) = insert (k, v) (set ps)"
  by (induction ps) (auto split: option.splits if_splits)

lemma define_prop_values:
  "(k', v') \<in> set (define_prop t k v) \<Longrightarrow> v' = v \<or> (k', v') \<in> set t"
  by (auto simp: define_prop_def set_insert_index split: if_splits option.splits)

lemma fold_define_prop_values:
  "(k', v') \<in> set (fold (\<lambda>(k, v) t. define_prop t k v) es t) \<Longrightarrow>
   v' \<in> snd ` set es \<or> (k', v') \<in> set t"
proof (induction es arbitrary: t)
  case Nil
  then show ?case by simp
next
  case (Cons e es)
  obtain k v where e: "e = (k, v)" by (cases e)
  from Cons.prems have "(k', v') \<in> set (fold (\<lambda>(k, v) t. define_prop t k v) es (define_prop t k v))"
    by (simp add: e)
  from Cons.IH[OF this] show ?case
    using define_prop_values[of k' v' t k v] by (auto simp: e)
qed

lemma merged_dependencies_is_json:
  assumes "is_json pkg" and "merged_dependencies pkg = Inr dependencies"
    and "(k, v) \<in> set dependencies"
  shows "is_json v"
proof -
  from assms(2) obtain deps dev where
    g: "get_prop pkg ''dependencies'' = Inr deps" "get_prop pkg ''devDependencies'' = Inr dev"
    and d: "dependencies = spread (spread [] deps) dev"
    by (auto simp: merged_dependencies_def split: sum.splits)
  have "is_json deps \<or> deps = Undefined" "is_json dev \<or> dev = Undefined"
    using get_prop_is_json[OF assms(1) g(1)] get_prop_is_json[OF assms(1) g(2)]
    by (simp_all add: object_prototype_names_def)
  then have j: "\<And>x. x \<in> snd ` set (own_entries deps) \<Longrightarrow> is_json x"
               "\<And>x. x \<in> snd ` set (own_entries dev) \<Longrightarrow> is_json x"
    by (auto dest: own_entries_is_json)
  from assms(3) have "v \<in> snd ` set (own_entries dev) \<or> (k, v) \<in> set (spread [] deps)"
    unfolding d spread_def by (rule fold_define_prop_values)
  then have "v \<in> snd ` set (own_entries dev) \<or> v \<in> snd ` set (own_entries deps)"
    unfolding spread_def by (auto dest: fold_define_prop_values)
  with j show ?thesis by blast
qed

lemma fetch_try_is_json:
  assumes "fetch_try reg pname pversion = Inr (l, lic)"
    and "case reg (registry_url pname) of None \<Rightarrow> True | Some data \<Rightarrow> is_json data"
  shows "(is_json l \<or> l = Undefined) \<and> is_json lic"
proof -
  from assms(1) obtain data tags versions key entry lic0 where
    r: "reg (registry_url pname) = Some data"
    and t: "get_prop data ''dist-tags'' = Inr tags" "get_prop tags ''latest'' = Inr l"
    and v: "get_prop data ''versions'' = Inr versions" "get_prop versions key = Inr entry"
    and o: "optional_prop entry ''license'' = Inr lic0"
    and lic: "lic = (if truthy lic0 then lic0 else Str ''Unknown'')"
    by (auto simp: fetch_try_def split: option.splits sum.splits)
  from r assms(2) have jd: "is_json data" by simp
  have n: "''dist-tags'' \<notin> set object_prototype_names" "''latest'' \<notin> set object_prototype_names"
          "''versions'' \<notin> set object_prototype_names" "''license'' \<notin> set object_prototype_names"
    by (simp_all add: object_prototype_names_def)
  from get_prop_is_json[OF jd t(1) n(1)] t(2) have jt: "is_json tags" by auto
  from get_prop_is_json[OF jt t(2) n(2)] have jl: "is_json l \<or> l = Undefined" .
  from get_prop_is_json[OF jd v(1) n(3)] v(2) have jv: "is_json versions" by auto
  from get_prop_is_json_any[OF jv v(2)] have "is_json entry \<or> entry = Undefined \<or> entry = Builtin" .
  then have "is_json lic0 \<or> lic0 = Undefined"
    using o get_prop_is_json[of entry "''license''" lic0, OF _ _ n(4)]
    by (auto simp: optional_prop_def split: if_splits)
  then have "is_json lic" unfolding lic by auto
  with jl show ?thesis by simp
qed

lemma fetchPackageInfo_is_json:
  assumes "fetchPackageInfo reg pname pversion = Inr (l, lic)"
    and "case reg (registry_url pname) of None \<Rightarrow> True | Some data \<Rightarrow> is_json data"
  shows "(is_json l \<or> l = Undefined) \<and> is_json lic"
proof (cases "fetch_try reg pname pversion")
  case (Inl e)
  with assms(1) show ?thesis by (auto simp: fetchPackageInfo_def)
next
  case (Inr info)
  with assms(1) have "fetch_try reg pname pversion = Inr (l, lic)"
    by (simp add: fetchPackageInfo_def)
  from fetch_try_is_json[OF this assms(2)] show ?thesis .
qed

lemma severity_is_json:
  assumes "list_all (\<lambda>p. is_json (snd p)) vulnerabilities"
    and "get_prop (Obj vulnerabilities) pname = Inr vuln"
    and "(if truthy vuln then get_prop vuln ''severity'' else Inr Null) = Inr s"
  shows "is_json s \<or> s = Undefined"
proof -
  from assms(1) have "is_json (Obj vulnerabilities)" by simp
  from get_prop_is_json_any[OF this assms(2)]
  have "is_json vuln \<or> vuln = Undefined \<or> vuln = Builtin" .
  moreover have "''severity'' \<notin> set object_prototype_names"
    by (simp add: object_prototype_names_def)
  ultimately show ?thesis
    using assms(3) get_prop_is_json[of vuln "''severity''" s]
    by (auto split: if_splits)
qed

subsection \<open>Failures\<close>

lemma get_prop_error: "get_prop v k = Inl e \<Longrightarrow> e = TypeError"
  by (cases v) simp_all

lemma join_strings_error:
  "join_strings rs = Inl e \<Longrightarrow> \<exists>r\<in>set rs. r = Inl e"
  by (induction rs rule: join_strings.induct) (auto split: sum.splits)

lemma to_string_error: "to_string v = Inl e \<Longrightarrow> e = TypeError"
proof (induction v rule: to_string.induct)
  case (6 xs)
  from join_strings_error[OF "6.prems"[simplified]] obtain x where
    "x \<in> set xs" "(if x = Undefined \<or> x = Null then Inr [] else to_string x) = Inl e"
    by auto
  with "6.IH" show ?case by (auto split: if_splits)
qed (auto split: if_splits)

lemma includes_call_error: "includes_call r x = Inl e \<Longrightarrow> e = TypeError"
  by (cases r) (auto split: sum.splits dest: to_string_error)

lemma scan_body_error:
  assumes "scan_body reg config vulnerabilities pname pversion = Inl e"
  shows "e = TypeError"
proof -
  obtain l lic where f: "fetchPackageInfo reg pname pversion = Inr (l, lic)"
    using fetchPackageInfo_returns[of reg pname pversion] by auto
  from assms show ?thesis
    unfolding scan_body_def f
    by (auto simp: Let_def simp del: get_prop.simps includes_call.simps
             split: sum.splits if_splits dest: get_prop_error includes_call_error)
qed

lemma scan_loop_error:
  "scan_loop reg config vulnerabilities es acc = Inl e \<Longrightarrow> e = TypeError"
proof (induction es arbitrary: acc)
  case Nil
  then show ?case by simp
next
  case (Cons p es)
  obtain pname pversion where p: "p = (pname, pversion)" by (cases p)
  from Cons.prems show ?case
    by (auto simp: p simp del: get_prop.simps includes_call.simps
             split: sum.splits bool.splits
             dest: get_prop_error includes_call_error scan_body_error Cons.IH)
qed

lemma merged_dependencies_error: "merged_dependencies pkg = Inl e \<Longrightarrow> e = TypeError"
  by (auto simp: merged_dependencies_def split: sum.splits dest: get_prop_error)

lemma scan_loop_no_ignored:
  assumes "get_prop config ''ignored'' = Inr Undefined"
  shows "scan_loop reg config vulnerabilities (d # ds) acc = Inl TypeError"
  using assms by (cases d) simp

lemma scan_body_no_allowed:
  assumes "get_prop config ''allowedLicenses'' = Inr Undefined"
  shows "scan_body reg config vulnerabilities pname pversion = Inl TypeError"
proof -
  obtain l lic where f: "fetchPackageInfo reg pname pversion = Inr (l, lic)"
    using fetchPackageInfo_returns[of reg pname pversion] by auto
  obtain vuln where g: "get_prop (Obj vulnerabilities) pname = Inr vuln" by simp
  have "\<exists>s. (if truthy vuln then get_prop vuln ''severity'' else Inr Null) = Inr s"
    by (cases vuln) simp_all
  then obtain s where s: "(if truthy vuln then get_prop vuln ''severity'' else Inr Null) = Inr s" ..
  show ?thesis
    unfolding scan_body_def using f g s assms
    by (simp del: get_prop.simps add: Let_def)
qed

lemma scan_loop_no_allowed:
  assumes "get_prop config ''ignored'' = Inr (Arr ignored)"
    and "get_prop config ''allowedLicenses'' = Inr Undefined"
  shows "\<exists>p\<in>set ds. Str (fst p) \<notin> set ignored \<Longrightarrow>
         scan_loop reg config vulnerabilities ds acc = Inl TypeError"
proof (induction ds arbitrary: acc)
  case Nil
  then show ?case by simp
next
  case (Cons d ds)
  obtain pname pversion where d: "d = (pname, pversion)" by (cases d)
  show ?case
  proof (cases "Str pname \<in> set ignored")
    case True
    with Cons.prems have "\<exists>p\<in>set ds. Str (fst p) \<notin> set ignored" by (auto simp: d)
    from Cons.IH[OF this] True assms(1) show ?thesis
      by (simp add: d includes_call_Arr_Str del: includes_call.simps)
  next
    case False
    with assms(1) scan_body_no_allowed[OF assms(2)] show ?thesis
      by (simp add: d includes_call_Arr_Str del: includes_call.simps)
  qed
qed

lemma push_call_missing:
  "get_prop config field = Inr Undefined \<Longrightarrow> push_call config field x = Inl TypeError"
  by (simp add: push_call_def)

subsection \<open>The summary\<close>

lemma to_string_primitive: "is_primitive v \<Longrightarrow> \<exists>s. to_string v = Inr s"
  by (cases v) simp_all

lemma console_log_template_error:
  "snd (console_log (template front v back)) = Some e \<Longrightarrow> e = TypeError"
  by (auto simp: console_log_def template_def split: sum.splits dest: to_string_error)

lemma console_log_template_primitive:
  "is_primitive v \<Longrightarrow> snd (console_log (template front v back)) = None"
  using to_string_primitive[of v] by (auto simp: console_log_def template_def)

lemma snd_and_then:
  "snd (and_then a b) = (case snd a of Some e \<Rightarrow> Some e | None \<Rightarrow> snd b)"
  by (cases a) (auto simp: and_then_def split: option.splits)

lemma print_dep_error: "snd (print_dep dep) = Some e \<Longrightarrow> e = TypeError"
  by (auto simp: print_dep_def snd_and_then split: option.splits if_splits
           dest: console_log_template_error)

lemma print_dep_primitive:
  assumes "is_primitive (version dep)" "is_primitive (latest dep)"
    "is_primitive (hasVulnerability dep)" "is_primitive (license dep)"
  shows "snd (print_dep dep) = None"
  using assms by (simp add: print_dep_def snd_and_then console_log_template_primitive)

lemma print_summary_error: "snd (print_summary results) = Some e \<Longrightarrow> e = TypeError"
  by (induction results)
     (auto simp: snd_and_then split: option.splits dest: print_dep_error)

lemma print_summary_primitive:
  assumes "\<forall>v\<in>set results. is_primitive (version v) \<and> is_primitive (latest v)
             \<and> is_primitive (hasVulnerability v) \<and> is_primitive (license v)"
  shows "snd (print_summary results) = None"
  using assms by (induction results) (simp_all add: snd_and_then print_dep_primitive)

lemma scanDependencies_written:
  assumes "scan_results reg package_file config_file vulnerabilities = Inr results"
  shows "written (scanDependencies reg package_file config_file vulnerabilities None report_path)
           = Some (report_file results)"
    and "thrown (scanDependencies reg package_file config_file vulnerabilities None report_path)
           = snd (print_summary results)"
  using assms by (simp_all add: scanDependencies_def Let_def)

lemma scanDependencies_loop_error:
  assumes "scan_results reg package_file config_file vulnerabilities = Inl e"
  shows "scanDependencies reg package_file config_file vulnerabilities write_error report_path
           = \<lparr>written = None, printed_lines = [], thrown = Some e\<rparr>"
  using assms by (simp add: scanDependencies_def)

lemma scan_results_error:
  "scan_results reg package_file config_file vulnerabilities = Inl e \<Longrightarrow> e = TypeError"
  by (auto simp: scan_results_def loadConfig_def split: sum.splits
           dest: merged_dependencies_error scan_loop_error)

lemma scanDependencies_error:
  assumes "thrown (scanDependencies reg package_file config_file vulnerabilities write_error
             report_path) = Some e"
  shows "e = TypeError \<or> write_error = Some e"
proof (cases "scan_results reg package_file config_file vulnerabilities")
  case (Inl e')
  with assms scan_results_error[OF Inl] show ?thesis by (simp add: scanDependencies_def)
next
  case (Inr results)
  show ?thesis
  proof (cases write_error)
    case None
    with assms Inr have "snd (print_summary results) = Some e"
      by (simp add: scanDependencies_def Let_def)
    then show ?thesis by (auto dest: print_summary_error)
  next
    case (Some e')
    with assms Inr show ?thesis by (simp add: scanDependencies_def)
  qed
qed

subsection \<open>The order of enumeration\<close>






lemma spread_index_keys:
  "spread (spread [] (Obj [(''b'', Null), (''10'', Null), (''9'', Null)]))
          (Obj [(''a'', Null), (''0'', Null), (''9'', Str ''x'')])
     = [(''0'', Null), (''9'', Str ''x''), (''10'', Null), (''b'', Null), (''a'', Null)]"
  by code_simp

section \<open>The claims\<close>

text \<open>
  C1. In every verdict of a scan, \<^verbatim>\<open>latest\<close> is what the fetch returned for the
  declaration, and \<^verbatim>\<open>isOutdated\<close> holds exactly when \<^verbatim>\<open>latest\<close> differs from the declared
  version (in the sense of \<^verbatim>\<open>!==\<close>) and is not the string \<^verbatim>\<open>Unknown\<close>. For a \<^verbatim>\<open>latest\<close>
  that is a string (any primitive) the difference is plain inequality, so the flag is
  false when \<^verbatim>\<open>latest\<close> equals the declared version and when it is \<^verbatim>\<open>Unknown\<close>.
\<close>

theorem scan_isOutdated:
  assumes "scan_results reg package_file config_file vulnerabilities = Inr results"
    and "v \<in> set results"
  shows "fetchPackageInfo reg (name v) (version v) = Inr (latest v, license v)
       \<and> isOutdated v = (\<not> strict_equals (latest v) (version v) \<and> latest v \<noteq> Str ''Unknown'')
       \<and> (is_primitive (latest v) \<longrightarrow>
            isOutdated v = (latest v \<noteq> version v \<and> latest v \<noteq> Str ''Unknown''))"
proof -
  from scan_member[OF assms] obtain config where
    c: "scan_body reg config vulnerabilities (name v) (version v) = Inr v" by blast
  from scan_body_fields(3,4)[OF c] show ?thesis
    by (simp add: strict_equals_Str) (simp add: strict_equals_def)
qed

theorem scan_isOutdated_witness:
  "scan_results sample_registry (Inr sample_manifest) (Inr sample_config) sample_vulnerabilities
     = Inr [lodash_verdict, badlib_verdict]
   \<and> isOutdated lodash_verdict \<and> latest lodash_verdict \<noteq> version lodash_verdict
   \<and> \<not> isOutdated badlib_verdict \<and> latest badlib_verdict = version badlib_verdict"
  using scan_isOutdated[OF sample_scan, of lodash_verdict]
        scan_isOutdated[OF sample_scan, of badlib_verdict] sample_scan
  by (simp add: lodash_verdict_def badlib_verdict_def)

text \<open>
  C2. In every verdict of a scan, \<^verbatim>\<open>license\<close> is what the fetch returned, and a verdict
  with license \<^verbatim>\<open>Unknown\<close> is allowed. When the configuration's \<^verbatim>\<open>allowedLicenses\<close> is
  a list, \<^verbatim>\<open>isLicenseAllowed\<close> holds exactly when the license is a member of that list (a
  string, or another primitive, equal to one of its elements) or is the string
  \<^verbatim>\<open>Unknown\<close>.
\<close>

theorem scan_isLicenseAllowed:
  assumes "scan_results reg package_file config_file vulnerabilities = Inr results"
    and "v \<in> set results"
  shows "fetchPackageInfo reg (name v) (version v) = Inr (latest v, license v)
       \<and> (license v = Str ''Unknown'' \<longrightarrow> isLicenseAllowed v)
       \<and> (loadConfig config_file = Inr config
            \<and> get_prop config ''allowedLicenses'' = Inr (Arr allowed) \<longrightarrow>
          isLicenseAllowed v
            = ((is_primitive (license v) \<and> license v \<in> set allowed)
               \<or> license v = Str ''Unknown''))"
proof -
  from scan_member[OF assms] obtain config' where
    l: "loadConfig config_file = Inr config'"
    and c: "scan_body reg config' vulnerabilities (name v) (version v) = Inr v" by blast
  from scan_body_license[OF c] obtain allowed' listed where
    a: "get_prop config' ''allowedLicenses'' = Inr allowed'"
       "includes_call allowed' (license v) = Inr listed"
       "isLicenseAllowed v = (listed \<or> license v = Str ''Unknown'')"
    by (auto simp: strict_equals_Str)
  have "isLicenseAllowed v
          = ((is_primitive (license v) \<and> license v \<in> set allowed) \<or> license v = Str ''Unknown'')"
    if "loadConfig config_file = Inr config \<and> get_prop config ''allowedLicenses'' = Inr (Arr allowed)"
    using that l a by (auto simp: includes_call_Arr simp del: includes_call.simps)
  with scan_body_fields(3)[OF c] a(3) show ?thesis by blast
qed

theorem scan_isLicenseAllowed_witness:
  "scan_results sample_registry (Inr sample_manifest) (Inr sample_config) sample_vulnerabilities
     = Inr [lodash_verdict, badlib_verdict]
   \<and> get_prop sample_config ''allowedLicenses'' = Inr (Arr [Str ''MIT''])
   \<and> license lodash_verdict = Str ''MIT'' \<and> isLicenseAllowed lodash_verdict
   \<and> license badlib_verdict = Str ''GPL-3.0'' \<and> \<not> isLicenseAllowed badlib_verdict"
  using scan_isLicenseAllowed[OF sample_scan, of lodash_verdict sample_config "[Str ''MIT'']"]
        scan_isLicenseAllowed[OF sample_scan, of badlib_verdict sample_config "[Str ''MIT'']"]
        sample_scan
  by (simp add: lodash_verdict_def badlib_verdict_def sample_config_def loadConfig_def)

text \<open>
  C3. When the configuration's \<^verbatim>\<open>ignored\<close> is an array, no verdict of a scan has a name
  in it: the verdicts report exactly the merged declarations whose name is not
  ignored, so an ignored declaration contributes nothing.
\<close>

theorem scan_skips_ignored:
  assumes "scan_results reg package_file config_file vulnerabilities = Inr results"
    and "loadConfig config_file = Inr config"
    and "get_prop config ''ignored'' = Inr (Arr ignored)"
    and "merged_dependencies (read_manifest package_file) = Inr dependencies"
  shows "(\<forall>v\<in>set results. Str (name v) \<notin> set ignored)
       \<and> map declaration_of results = filter (\<lambda>p. Str (fst p) \<notin> set ignored) dependencies"
proof -
  from assms(1,2,4) have l: "scan_loop reg config vulnerabilities dependencies [] = Inr results"
    by (auto elim: scan_unfold)
  from scan_loop_order[OF assms(3) l] have
    o: "map declaration_of results = filter (\<lambda>p. Str (fst p) \<notin> set ignored) dependencies"
    by (simp add: declaration_of_def[abs_def])
  have "Str (name v) \<notin> set ignored" if "v \<in> set results" for v
  proof -
    from that have "declaration_of v \<in> set (map declaration_of results)" by simp
    then show ?thesis unfolding o by (simp add: declaration_of_def)
  qed
  with o show ?thesis by blast
qed

theorem scan_skips_ignored_witness:
  "get_prop sample_config ''ignored'' = Inr (Arr [Str ''left-pad''])
   \<and> merged_dependencies sample_manifest
       = Inr [(''lodash'', Str ''4.17.0''), (''left-pad'', Str ''1.3.0''), (''badlib'', Str ''2.0.0'')]
   \<and> map declaration_of [lodash_verdict, badlib_verdict]
       = [(''lodash'', Str ''4.17.0''), (''badlib'', Str ''2.0.0'')]
   \<and> name lodash_verdict \<noteq> ''left-pad'' \<and> name badlib_verdict \<noteq> ''left-pad''"
proof -
  have m: "merged_dependencies (read_manifest (Inr sample_manifest))
       = Inr [(''lodash'', Str ''4.17.0''), (''left-pad'', Str ''1.3.0''), (''badlib'', Str ''2.0.0'')]"
    by code_simp
  have c: "loadConfig (Inr sample_config) = Inr sample_config" by (simp add: loadConfig_def)
  have i: "get_prop sample_config ''ignored'' = Inr (Arr [Str ''left-pad''])"
    by (simp add: sample_config_def)
  from scan_skips_ignored[OF sample_scan c i m] m i show ?thesis
    by (simp add: read_manifest_def)
qed




text \<open>
  C5, as stated, fails: when only the declared version is absent from the registry's
  version list, \<^verbatim>\<open>latest\<close> is still the registry's latest tag and only the license is
  \<^verbatim>\<open>Unknown\<close>.
\<close>

theorem fetch_absent_version_counterexample:
  "sample_registry (registry_url ''lodash'') = Some lodash_document
   \<and> get_prop lodash_document ''versions''
       = Inr (Obj [(''4.17.0'', Obj [(''license'', Str ''MIT'')]),
                   (''4.17.21'', Obj [(''license'', Str ''MIT'')])])
   \<and> fetchPackageInfo sample_registry ''lodash'' (Str ''9.9.9'')
       = Inr (Str ''4.17.21'', Str ''Unknown'')
   \<and> fetchPackageInfo sample_registry ''lodash'' (Str ''9.9.9'')
       \<noteq> Inr (Str ''Unknown'', Str ''Unknown'')"
  by code_simp

text \<open>
  C5, amended. The fetch never raises: every exception of its \<^verbatim>\<open>try\<close> block gives
  \<^verbatim>\<open>Unknown\<close> for both fields, as when the request fails and when the answer has no
  \<^verbatim>\<open>dist-tags\<close> or no \<^verbatim>\<open>versions\<close>. When only the declared version is absent from
  the version list, it returns the registry's latest tag with the license \<^verbatim>\<open>Unknown\<close>.
\<close>

theorem fetchPackageInfo_degrades:
  "(\<exists>info. fetchPackageInfo reg pname pversion = Inr info)
   \<and> (fetch_try reg pname pversion = Inl e \<longrightarrow>
        fetchPackageInfo reg pname pversion = Inr (Str ''Unknown'', Str ''Unknown''))
   \<and> (reg (registry_url pname) = None \<longrightarrow>
        fetchPackageInfo reg pname pversion = Inr (Str ''Unknown'', Str ''Unknown''))
   \<and> (reg (registry_url pname) = Some data \<and> get_prop data ''dist-tags'' = Inr Undefined \<longrightarrow>
        fetchPackageInfo reg pname pversion = Inr (Str ''Unknown'', Str ''Unknown''))
   \<and> (reg (registry_url pname) = Some data \<and> get_prop data ''versions'' = Inr Undefined \<longrightarrow>
        fetchPackageInfo reg pname pversion = Inr (Str ''Unknown'', Str ''Unknown''))
   \<and> (reg (registry_url pname) = Some data \<and> get_prop data ''dist-tags'' = Inr tags
        \<and> get_prop tags ''latest'' = Inr latest_tag
        \<and> get_prop data ''versions'' = Inr (Obj versions) \<and> map_of versions declared = None \<longrightarrow>
        fetchPackageInfo reg pname (Str declared) = Inr (latest_tag, Str ''Unknown''))"
proof (intro conjI impI)
  show "\<exists>info. fetchPackageInfo reg pname pversion = Inr info"
    by (rule fetchPackageInfo_returns)
next
  assume "fetch_try reg pname pversion = Inl e"
  then show "fetchPackageInfo reg pname pversion = Inr (Str ''Unknown'', Str ''Unknown'')"
    by (simp add: fetchPackageInfo_def)
next
  assume "reg (registry_url pname) = None"
  then show "fetchPackageInfo reg pname pversion = Inr (Str ''Unknown'', Str ''Unknown'')"
    by (simp add: fetchPackageInfo_def fetch_try_def)
next
  assume "reg (registry_url pname) = Some data \<and> get_prop data ''dist-tags'' = Inr Undefined"
  then show "fetchPackageInfo reg pname pversion = Inr (Str ''Unknown'', Str ''Unknown'')"
    by (simp add: fetchPackageInfo_def fetch_try_def)
next
  assume "reg (registry_url pname) = Some data \<and> get_prop data ''versions'' = Inr Undefined"
  then show "fetchPackageInfo reg pname pversion = Inr (Str ''Unknown'', Str ''Unknown'')"
    by (simp add: fetchPackageInfo_def fetch_try_def split: sum.splits)
next
  assume a: "reg (registry_url pname) = Some data \<and> get_prop data ''dist-tags'' = Inr tags
        \<and> get_prop tags ''latest'' = Inr latest_tag
        \<and> get_prop data ''versions'' = Inr (Obj versions) \<and> map_of versions declared = None"
  then show "fetchPackageInfo reg pname (Str declared) = Inr (latest_tag, Str ''Unknown'')"
    by (simp add: fetchPackageInfo_def fetch_try_def optional_prop_def)
qed

theorem fetchPackageInfo_degrades_witness:
  "sample_registry (registry_url ''left-pad'') = None
   \<and> fetchPackageInfo sample_registry ''left-pad'' (Str ''1.0.0'')
       = Inr (Str ''Unknown'', Str ''Unknown'')
   \<and> sample_registry (registry_url ''lodash'') = Some lodash_document
   \<and> fetchPackageInfo sample_registry ''lodash'' (Str ''9.9.9'')
       = Inr (Str ''4.17.21'', Str ''Unknown'')"
proof -
  have n: "sample_registry (registry_url ''left-pad'') = None"
    and s: "sample_registry (registry_url ''lodash'') = Some lodash_document"
    by (simp_all add: sample_registry_def registry_url_def)
  have g: "get_prop lodash_document ''dist-tags'' = Inr (Obj [(''latest'', Str ''4.17.21'')])"
          "get_prop (Obj [(''latest'', Str ''4.17.21'')]) ''latest'' = Inr (Str ''4.17.21'')"
          "get_prop lodash_document ''versions''
             = Inr (Obj [(''4.17.0'', Obj [(''license'', Str ''MIT'')]),
                         (''4.17.21'', Obj [(''license'', Str ''MIT'')])])"
          "map_of [(''4.17.0'', Obj [(''license'', Str ''MIT'')]),
                   (''4.17.21'', Obj [(''license'', Str ''MIT'')])] ''9.9.9'' = None"
    by (simp_all add: lodash_document_def)
  from fetchPackageInfo_degrades[where reg = sample_registry and pname = "''left-pad''"
         and pversion = "Str ''1.0.0''"] n
  have 1: "fetchPackageInfo sample_registry ''left-pad'' (Str ''1.0.0'')
             = Inr (Str ''Unknown'', Str ''Unknown'')" by blast
  from fetchPackageInfo_degrades[where reg = sample_registry and pname = "''lodash''"
         and data = lodash_document and tags = "Obj [(''latest'', Str ''4.17.21'')]"
         and latest_tag = "Str ''4.17.21''" and declared = "''9.9.9''"
         and versions = "[(''4.17.0'', Obj [(''license'', Str ''MIT'')]),
                          (''4.17.21'', Obj [(''license'', Str ''MIT'')])]"] s g
  have 2: "fetchPackageInfo sample_registry ''lodash'' (Str ''9.9.9'')
             = Inr (Str ''4.17.21'', Str ''Unknown'')" by blast
  from n s 1 2 show ?thesis by blast
qed

text \<open>
  C6, as stated, fails: the objects of the report carry the field names of the source's
  object literal, \<^verbatim>\<open>version\<close>, \<^verbatim>\<open>latest\<close> and \<^verbatim>\<open>hasVulnerability\<close>, not
  \<^verbatim>\<open>declaredVersion\<close>, \<^verbatim>\<open>latestVersion\<close> and \<^verbatim>\<open>vulnerabilitySeverity\<close>.
\<close>

theorem report_field_names_counterexample:
  "scan_results sample_registry (Inr sample_manifest) (Inr sample_config) sample_vulnerabilities
     = Inr [lodash_verdict, badlib_verdict]
   \<and> report_file [lodash_verdict, badlib_verdict]
       = Arr [Obj [(''name'', Str ''lodash''), (''version'', Str ''4.17.0''),
                   (''latest'', Str ''4.17.21''), (''isOutdated'', Bool True),
                   (''hasVulnerability'', Null), (''license'', Str ''MIT''),
                   (''isLicenseAllowed'', Bool True)],
              Obj [(''name'', Str ''badlib''), (''version'', Str ''2.0.0''),
                   (''latest'', Str ''2.0.0''), (''isOutdated'', Bool False),
                   (''hasVulnerability'', Str ''high''), (''license'', Str ''GPL-3.0''),
                   (''isLicenseAllowed'', Bool False)]]
   \<and> map fst (json_members (verdict_object lodash_verdict)) \<noteq> spec_verdict_fields"
  by code_simp

text \<open>
  C6, amended. For JSON inputs, every verdict object written to the report has the
  field names \<^verbatim>\<open>name\<close>, \<^verbatim>\<open>version\<close>, \<^verbatim>\<open>latest\<close>, \<^verbatim>\<open>isOutdated\<close>, \<^verbatim>\<open>hasVulnerability\<close>,
  \<^verbatim>\<open>license\<close>, \<^verbatim>\<open>isLicenseAllowed\<close>, in this order; \<^verbatim>\<open>latest\<close> and \<^verbatim>\<open>hasVulnerability\<close>
  are left out of the file when their value is \<^verbatim>\<open>undefined\<close>, the other five are always
  present.
\<close>

theorem report_field_names:
  assumes "scan_results reg package_file config_file vulnerabilities = Inr results"
    and "v \<in> set results"
    and "is_json (read_manifest package_file)"
    and "case reg (registry_url (name v)) of None \<Rightarrow> True | Some data \<Rightarrow> is_json data"
    and "list_all (\<lambda>p. is_json (snd p)) vulnerabilities"
  shows "map fst (json_members (verdict_object v))
       = [''name'', ''version'']
         @ (if latest v = Undefined then [] else [''latest''])
         @ [''isOutdated'']
         @ (if hasVulnerability v = Undefined then [] else [''hasVulnerability''])
         @ [''license'', ''isLicenseAllowed'']"
proof -
  from scan_member[OF assms(1,2)] obtain config dependencies where
    m: "merged_dependencies (read_manifest package_file) = Inr dependencies"
       "(name v, version v) \<in> set dependencies"
    and c: "scan_body reg config vulnerabilities (name v) (version v) = Inr v"
    by blast
  from merged_dependencies_is_json[OF assms(3) m] have "is_json (version v)" .
  then have 1: "version v \<noteq> Undefined" "version v \<noteq> Builtin"
    by (simp_all add: is_json_defined)
  from fetchPackageInfo_is_json[OF scan_body_fields(3)[OF c] assms(4)]
  have 2: "latest v \<noteq> Builtin" "license v \<noteq> Undefined" "license v \<noteq> Builtin"
    by (auto simp: is_json_defined)
  from scan_body_severity[OF c] obtain vuln where
    s: "get_prop (Obj vulnerabilities) (name v) = Inr vuln"
       "(if truthy vuln then get_prop vuln ''severity'' else Inr Null) = Inr (hasVulnerability v)"
    by blast
  from severity_is_json[OF assms(5) s] have 3: "hasVulnerability v \<noteq> Builtin"
    by (auto simp: is_json_defined)
  from 1 2 3 show ?thesis
    by (simp add: json_members_def verdict_object_def)
qed

theorem report_field_names_witness:
  "scan_results sample_registry (Inr sample_manifest) (Inr sample_config) sample_vulnerabilities
     = Inr [lodash_verdict, badlib_verdict]
   \<and> is_json sample_manifest \<and> is_json lodash_document
   \<and> list_all (\<lambda>p. is_json (snd p)) sample_vulnerabilities
   \<and> map fst (json_members (verdict_object lodash_verdict))
       = [''name'', ''version'', ''latest'', ''isOutdated'', ''hasVulnerability'', ''license'',
          ''isLicenseAllowed'']"
proof -
  have j: "is_json (read_manifest (Inr sample_manifest))"
    by (simp add: read_manifest_def sample_manifest_def)
  have r: "case sample_registry (registry_url (name lodash_verdict)) of
             None \<Rightarrow> True | Some data \<Rightarrow> is_json data"
    by (simp add: sample_registry_def registry_url_def lodash_verdict_def lodash_document_def)
  have v: "list_all (\<lambda>p. is_json (snd p)) sample_vulnerabilities"
    by (simp add: sample_vulnerabilities_def)
  have d: "is_json lodash_document" by (simp add: lodash_document_def)
  from report_field_names[OF sample_scan _ j r v] j d v sample_scan show ?thesis
    by (simp add: lodash_verdict_def read_manifest_def)
qed

text \<open>
  C7 fails for a package named like a member of \<^verbatim>\<open>Object.prototype\<close>. With an empty
  vulnerability mapping, \<^verbatim>\<open>vulnerabilities['constructor']\<close> is the inherited function, which
  is truthy and has no \<^verbatim>\<open>severity\<close>: the verdict's \<^verbatim>\<open>hasVulnerability\<close> is
  \<^verbatim>\<open>undefined\<close>, not \<^verbatim>\<open>null\<close>, and the field is missing from the report.
\<close>

theorem scan_inherited_name_severity:
  "map_of [] ''constructor'' = (None :: jsval option)
   \<and> map_sum id (map hasVulnerability)
        (scan_results sample_registry (Inr constructor_manifest) (Inl ReadFailed) [])
       = Inr [Undefined]
   \<and> map_sum id report_file
        (scan_results sample_registry (Inr constructor_manifest) (Inl ReadFailed) [])
       = Inr (Arr [Obj [(''name'', Str ''constructor''), (''version'', Str ''1.0.0''),
                        (''latest'', Str ''Unknown''), (''isOutdated'', Bool False),
                        (''license'', Str ''Unknown''), (''isLicenseAllowed'', Bool True)]])"
  by code_simp

text \<open>
  For every other name the field is as C7 says: the severity of the entry when the
  mapping has a (truthy) entry for the name, and \<^verbatim>\<open>null\<close> when it has none.
\<close>

lemma scan_hasVulnerability:
  assumes "scan_results reg package_file config_file vulnerabilities = Inr results"
    and "v \<in> set results"
    and "name v \<notin> set object_prototype_names"
  shows "hasVulnerability v
       = (case map_of vulnerabilities (name v) of
            None \<Rightarrow> Null
          | Some entry \<Rightarrow> if truthy entry then projr (get_prop entry ''severity'') else Null)"
proof -
  from scan_member[OF assms(1,2)] obtain config where
    c: "scan_body reg config vulnerabilities (name v) (version v) = Inr v" by blast
  from scan_body_severity[OF c] assms(3) show ?thesis
    by (auto split: option.splits if_splits)
qed

text \<open>
  C8. Loading the configuration never raises. A configuration that can be read is
  returned as it is; when the file is absent, unreadable or not JSON the result is the
  default configuration, whose \<^verbatim>\<open>ignored\<close> list is empty and whose \<^verbatim>\<open>allowedLicenses\<close>
  are MIT, Apache-2.0, BSD-2-Clause and BSD-3-Clause.
\<close>

theorem loadConfig_fails_soft:
  "(\<exists>config. loadConfig config_file = Inr config)
   \<and> loadConfig (Inr persisted) = Inr persisted
   \<and> loadConfig (Inl e) = Inr default_config
   \<and> get_prop default_config ''ignored'' = Inr (Arr [])
   \<and> get_prop default_config ''allowedLicenses''
       = Inr (Arr [Str ''MIT'', Str ''Apache-2.0'', Str ''BSD-2-Clause'', Str ''BSD-3-Clause''])"
  by (cases config_file) (simp_all add: loadConfig_def default_config_def)

text \<open>
  C9, as stated, fails: the program has no check of the shape of a declaration and no
  InvalidInputError. A declaration whose version is a number is classified, written and
  printed like any other, and the scan returns.
\<close>

theorem scan_malformed_counterexample:
  "\<not> spec_well_formed malformed_manifest
   \<and> scanDependencies sample_registry (Inr malformed_manifest) (Inl ReadFailed) [] None
        ''dependency-audit-report.json''
       = \<lparr>written =
            Some (Arr [Obj [(''name'', Str ''lodash''), (''version'', Num ''4''),
                            (''latest'', Str ''4.17.21''), (''isOutdated'', Bool True),
                            (''hasVulnerability'', Null), (''license'', Str ''Unknown''),
                            (''isLicenseAllowed'', Bool True)]]),
          printed_lines =
            [''Audit completed! Report saved to dependency-audit-report.json'',
             ''Dependency Audit Summary:'', ''- lodash@4'', ''  Outdated: Latest is 4.17.21''],
          thrown = None\<rparr>"
  by code_simp

text \<open>
  C9, amended. When the manifest is not \<^verbatim>\<open>null\<close> and the configuration's \<^verbatim>\<open>ignored\<close>
  and \<^verbatim>\<open>allowedLicenses\<close> are arrays, the classification loop never fails, whatever the
  shape of the declarations and whatever the registry answers (a fetch that fails
  degrades to \<^verbatim>\<open>Unknown\<close>), and its verdicts are written to the report when the write
  succeeds. The scan then returns when the version, latest version, severity and
  license of every verdict are primitives (strings, numbers, booleans, \<^verbatim>\<open>null\<close>). A scan
  that fails does so with a \<^verbatim>\<open>TypeError\<close> or with the error of the write, never with an
  InvalidInputError.
\<close>

theorem scan_returns:
  "(read_manifest package_file \<noteq> Null \<and> read_manifest package_file \<noteq> Undefined
      \<and> loadConfig config_file = Inr config
      \<and> get_prop config ''ignored'' = Inr (Arr ignored)
      \<and> get_prop config ''allowedLicenses'' = Inr (Arr allowed)
    \<longrightarrow> (\<exists>results. scan_results reg package_file config_file vulnerabilities = Inr results
           \<and> written (scanDependencies reg package_file config_file vulnerabilities None
                report_path) = Some (report_file results)))
   \<and> (scan_results reg package_file config_file vulnerabilities = Inr results
        \<and> (\<forall>v\<in>set results. is_primitive (version v) \<and> is_primitive (latest v)
               \<and> is_primitive (hasVulnerability v) \<and> is_primitive (license v))
    \<longrightarrow> thrown (scanDependencies reg package_file config_file vulnerabilities None report_path)
          = None)
   \<and> (thrown (scanDependencies reg package_file config_file vulnerabilities write_error
          report_path) = Some e
    \<longrightarrow> e = TypeError \<or> write_error = Some e)"
proof (intro conjI impI)
  assume a: "read_manifest package_file \<noteq> Null \<and> read_manifest package_file \<noteq> Undefined
      \<and> loadConfig config_file = Inr config
      \<and> get_prop config ''ignored'' = Inr (Arr ignored)
      \<and> get_prop config ''allowedLicenses'' = Inr (Arr allowed)"
  then obtain ds where ds: "merged_dependencies (read_manifest package_file) = Inr ds"
    using merged_dependencies_returns[of "read_manifest package_file"] by auto
  from a scan_loop_returns[of config ignored allowed reg vulnerabilities ds "[]"]
  obtain results where
    r: "scan_results reg package_file config_file vulnerabilities = Inr results"
    by (auto simp: scan_results_def ds)
  with scanDependencies_written(1)[OF r]
  show "\<exists>results. scan_results reg package_file config_file vulnerabilities = Inr results
           \<and> written (scanDependencies reg package_file config_file vulnerabilities None
                report_path) = Some (report_file results)"
    by blast
next
  assume "scan_results reg package_file config_file vulnerabilities = Inr results
        \<and> (\<forall>v\<in>set results. is_primitive (version v) \<and> is_primitive (latest v)
               \<and> is_primitive (hasVulnerability v) \<and> is_primitive (license v))"
  then show "thrown (scanDependencies reg package_file config_file vulnerabilities None
               report_path) = None"
    using scanDependencies_written(2) print_summary_primitive by simp
next
  assume "thrown (scanDependencies reg package_file config_file vulnerabilities write_error
            report_path) = Some e"
  then show "e = TypeError \<or> write_error = Some e"
    by (rule scanDependencies_error)
qed

theorem scan_returns_witness:
  "read_manifest (Inr malformed_manifest) \<noteq> Null
   \<and> loadConfig (Inl ReadFailed) = Inr default_config
   \<and> (\<exists>results. scan_results sample_registry (Inr malformed_manifest) (Inl ReadFailed) []
                  = Inr results
         \<and> written (scanDependencies sample_registry (Inr malformed_manifest) (Inl ReadFailed)
              [] None ''dependency-audit-report.json'') = Some (report_file results))
   \<and> thrown (scanDependencies sample_registry (Inr sample_manifest) (Inl ReadFailed)
        sample_vulnerabilities None ''dependency-audit-report.json'') = None
   \<and> thrown (scanDependencies sample_registry (Inr tostring_manifest) (Inl ReadFailed) [] None
        ''dependency-audit-report.json'') = Some TypeError
   \<and> thrown (scanDependencies sample_registry (Inr Null) (Inl ReadFailed) [] None
        ''dependency-audit-report.json'') = Some TypeError"
proof -
  have 1: "read_manifest (Inr malformed_manifest) \<noteq> Null"
          "read_manifest (Inr malformed_manifest) \<noteq> Undefined"
    by (simp_all add: read_manifest_def malformed_manifest_def)
  have 2: "loadConfig (Inl ReadFailed) = Inr default_config" by (simp add: loadConfig_def)
  have 3: "get_prop default_config ''ignored'' = Inr (Arr [])"
          "get_prop default_config ''allowedLicenses''
             = Inr (Arr [Str ''MIT'', Str ''Apache-2.0'', Str ''BSD-2-Clause'', Str ''BSD-3-Clause''])"
    by (simp_all add: default_config_def)
  have 4: "\<forall>v\<in>set [lodash_verdict, leftpad_verdict, badlib_verdict].
             is_primitive (version v) \<and> is_primitive (latest v)
             \<and> is_primitive (hasVulnerability v) \<and> is_primitive (license v)"
    by (simp add: lodash_verdict_def leftpad_verdict_def badlib_verdict_def)
  have 5: "thrown (scanDependencies sample_registry (Inr tostring_manifest) (Inl ReadFailed) []
             None ''dependency-audit-report.json'') = Some TypeError"
          "thrown (scanDependencies sample_registry (Inr Null) (Inl ReadFailed) [] None
             ''dependency-audit-report.json'') = Some TypeError"
    by code_simp+
  note a = scan_returns[where package_file = "Inr malformed_manifest"
      and config_file = "Inl ReadFailed" and config = default_config and ignored = "[]"
      and allowed = "[Str ''MIT'', Str ''Apache-2.0'', Str ''BSD-2-Clause'', Str ''BSD-3-Clause'']"
      and reg = sample_registry and vulnerabilities = "[]"
      and report_path = "''dependency-audit-report.json''"]
  note b = scan_returns[where package_file = "Inr sample_manifest"
      and config_file = "Inl ReadFailed" and reg = sample_registry
      and vulnerabilities = sample_vulnerabilities
      and results = "[lodash_verdict, leftpad_verdict, badlib_verdict]"
      and report_path = "''dependency-audit-report.json''"]
  from a 1 2 3 have 6:
    "\<exists>results. scan_results sample_registry (Inr malformed_manifest) (Inl ReadFailed) []
                  = Inr results
         \<and> written (scanDependencies sample_registry (Inr malformed_manifest) (Inl ReadFailed)
              [] None ''dependency-audit-report.json'') = Some (report_file results)"
    by blast
  from b sample_scan_default 4 have 7:
    "thrown (scanDependencies sample_registry (Inr sample_manifest) (Inl ReadFailed)
        sample_vulnerabilities None ''dependency-audit-report.json'') = None"
    by blast
  from 1 2 5 6 7 show ?thesis by blast
qed

text \<open>
  C10. A configuration that parses is returned as it is, whatever its shape. When it
  lacks \<^verbatim>\<open>ignored\<close>, a scan with at least one declaration and an update with
  \<^verbatim>\<open>--ignore\<close> fail with a \<^verbatim>\<open>TypeError\<close>; when it lacks \<^verbatim>\<open>allowedLicenses\<close>, a scan with a
  declaration that is not ignored and an update with \<^verbatim>\<open>--add-license\<close> fail likewise.
\<close>

theorem loadConfig_no_validation:
  "loadConfig (Inr config) = Inr config
   \<and> (get_prop config ''ignored'' = Inr Undefined
        \<and> merged_dependencies (read_manifest package_file) = Inr (d # ds) \<longrightarrow>
      scan_results reg package_file (Inr config) vulnerabilities = Inl TypeError)
   \<and> (get_prop config ''ignored'' = Inr (Arr ignored)
        \<and> get_prop config ''allowedLicenses'' = Inr Undefined
        \<and> merged_dependencies (read_manifest package_file) = Inr dependencies
        \<and> (\<exists>p\<in>set dependencies. Str (fst p) \<notin> set ignored) \<longrightarrow>
      scan_results reg package_file (Inr config) vulnerabilities = Inl TypeError)
   \<and> (get_prop config ''ignored'' = Inr Undefined \<and> x \<noteq> [] \<longrightarrow>
      updateConfig (Inr config) \<lparr>ignore = Some x, addLicense = other\<rparr> = Inl TypeError)
   \<and> (get_prop config ''allowedLicenses'' = Inr Undefined \<and> x \<noteq> [] \<longrightarrow>
      updateConfig (Inr config) \<lparr>ignore = None, addLicense = Some x\<rparr> = Inl TypeError)"
proof (intro conjI impI)
  show "loadConfig (Inr config) = Inr config" by (simp add: loadConfig_def)
next
  assume "get_prop config ''ignored'' = Inr Undefined
        \<and> merged_dependencies (read_manifest package_file) = Inr (d # ds)"
  then show "scan_results reg package_file (Inr config) vulnerabilities = Inl TypeError"
    by (simp add: scan_results_def loadConfig_def scan_loop_no_ignored del: scan_loop.simps)
next
  assume "get_prop config ''ignored'' = Inr (Arr ignored)
        \<and> get_prop config ''allowedLicenses'' = Inr Undefined
        \<and> merged_dependencies (read_manifest package_file) = Inr dependencies
        \<and> (\<exists>p\<in>set dependencies. Str (fst p) \<notin> set ignored)"
  then show "scan_results reg package_file (Inr config) vulnerabilities = Inl TypeError"
    by (simp add: scan_results_def loadConfig_def scan_loop_no_allowed del: scan_loop.simps)
next
  assume "get_prop config ''ignored'' = Inr Undefined \<and> x \<noteq> []"
  then show "updateConfig (Inr config) \<lparr>ignore = Some x, addLicense = other\<rparr> = Inl TypeError"
    by (simp add: updateConfig_def loadConfig_def push_option_def push_call_missing)
next
  assume "get_prop config ''allowedLicenses'' = Inr Undefined \<and> x \<noteq> []"
  then show "updateConfig (Inr config) \<lparr>ignore = None, addLicense = Some x\<rparr> = Inl TypeError"
    by (simp add: updateConfig_def loadConfig_def push_option_def push_call_missing)
qed

theorem loadConfig_no_validation_witness:
  "loadConfig (Inr (Obj [])) = Inr (Obj [])
   \<and> get_prop (Obj []) ''ignored'' = Inr Undefined
   \<and> scan_results sample_registry (Inr sample_manifest) (Inr (Obj [])) sample_vulnerabilities
       = Inl TypeError
   \<and> get_prop (Obj [(''ignored'', Arr [])]) ''allowedLicenses'' = Inr Undefined
   \<and> scan_results sample_registry (Inr sample_manifest) (Inr (Obj [(''ignored'', Arr [])]))
        sample_vulnerabilities = Inl TypeError
   \<and> updateConfig (Inr (Obj [])) \<lparr>ignore = Some ''left-pad'', addLicense = None\<rparr> = Inl TypeError
   \<and> updateConfig (Inr (Obj [])) \<lparr>ignore = None, addLicense = Some ''ISC''\<rparr> = Inl TypeError"
proof -
  have m: "merged_dependencies (read_manifest (Inr sample_manifest))
       = Inr ((''lodash'', Str ''4.17.0'')
              # [(''left-pad'', Str ''1.3.0''), (''badlib'', Str ''2.0.0'')])"
    by code_simp
  have g: "get_prop (Obj []) ''ignored'' = Inr Undefined"
          "get_prop (Obj []) ''allowedLicenses'' = Inr Undefined"
          "get_prop (Obj [(''ignored'', Arr [])]) ''ignored'' = Inr (Arr [])"
          "get_prop (Obj [(''ignored'', Arr [])]) ''allowedLicenses'' = Inr Undefined"
    by (simp_all add: object_prototype_names_def)
  have ex: "\<exists>p\<in>set [(''lodash'', Str ''4.17.0''), (''left-pad'', Str ''1.3.0''),
                     (''badlib'', Str ''2.0.0'')]. Str (fst p) \<notin> set []"
    by (rule bexI[of _ "(''lodash'', Str ''4.17.0'')"]) simp_all
  have ne: "''left-pad'' \<noteq> []" "''ISC'' \<noteq> []" by simp_all
  note t1 = loadConfig_no_validation[of "Obj []" "Inr sample_manifest" "(''lodash'', Str ''4.17.0'')"
      "[(''left-pad'', Str ''1.3.0''), (''badlib'', Str ''2.0.0'')]" sample_registry
      sample_vulnerabilities "[]" "[]" "''left-pad''" None]
  note t2 = loadConfig_no_validation[of "Obj [(''ignored'', Arr [])]" "Inr sample_manifest"
      "(''lodash'', Str ''4.17.0'')" "[]"
      sample_registry sample_vulnerabilities "[]"
      "[(''lodash'', Str ''4.17.0''), (''left-pad'', Str ''1.3.0''), (''badlib'', Str ''2.0.0'')]"
      "''ISC''" None]
  note t3 = loadConfig_no_validation[of "Obj []" "Inr sample_manifest" "(''lodash'', Str ''4.17.0'')"
      "[]" sample_registry sample_vulnerabilities "[]" "[]" "''ISC''" None]
  from t1 m g(1) ne(1) have 1: "loadConfig (Inr (Obj [])) = Inr (Obj [])"
    "scan_results sample_registry (Inr sample_manifest) (Inr (Obj [])) sample_vulnerabilities
       = Inl TypeError"
    "updateConfig (Inr (Obj [])) \<lparr>ignore = Some ''left-pad'', addLicense = None\<rparr> = Inl TypeError"
    by blast+
  from t2 m g(3,4) ex have 2:
    "scan_results sample_registry (Inr sample_manifest) (Inr (Obj [(''ignored'', Arr [])]))
        sample_vulnerabilities = Inl TypeError"
    by blast
  from t3 g(2) ne(2) have 3:
    "updateConfig (Inr (Obj [])) \<lparr>ignore = None, addLicense = Some ''ISC''\<rparr> = Inl TypeError"
    by blast
  from 1 2 3 g(1,4) show ?thesis by blast
qed

end
